theory Spec2Isabelle
  imports Complex_Main "HOL-Library.Monad_Syntax"
begin

section \<open>Data model of \<open>sorted_set.hh\<close>\<close>

text \<open>
  The class \<open>SortedSet<KeyType>\<close> owns a pointer graph of \<open>SkipListNode\<close> objects and an
  \<open>unordered_map\<close> from keys to scores. Pointers are addresses into an explicit store;
  \<open>NULL\<close> is \<open>None\<close>. Every function that reads or writes through a pointer returns an
  \<open>option\<close>: \<open>None\<close> stands for every way in which the C++ call does not return normally
  (a failed \<open>assert\<close>, a dereference of \<open>NULL\<close> or of a deleted node, an index beyond a
  node's level array, a loop that runs forever).

  \<open>KeyType\<close> is instantiated with strings. Scores are \<open>double\<close> in the source and reals
  here (the comparisons of the source on non-NaN values). The unsigned counters
  (\<open>mLength\<close>, \<open>mSpan\<close>, \<open>rank[]\<close>, \<open>traversed\<close>) are natural numbers; the two places where
  the source subtracts from a counter that may be zero on a small structure
  (\<open>zrank_generic\<close>, \<open>zcount\<close>) have the wrap-around of \<open>unsigned long\<close> written out.
\<close>

type_synonym addr = nat
type_synonym KeyType = string

record SkipListLevel =
  mForward :: "addr option"
  mSpan :: nat

record SkipListNode =
  mIsHeader :: bool
  mScore :: real
  mKey :: KeyType
  mBackward :: "addr option"
  mLevel :: "SkipListLevel list"

record RangeSpec =
  mMin :: real
  mMax :: real
  mMinex :: bool
  mMaxex :: bool

text \<open>
  The fields of \<open>SortedSet\<close>. \<open>mListLevel\<close> is the member \<open>mLevel\<close> of the class (renamed:
  the node's level array has the same name). \<open>mStore\<close> is the memory holding the nodes and
  \<open>mNew\<close> the address the next \<open>new SkipListNode\<close> returns.
\<close>

record SortedSet =
  mStore :: "addr \<Rightarrow> SkipListNode option"
  mNew :: addr
  mHeader :: addr
  mTail :: "addr option"
  mLength :: nat
  mListLevel :: nat
  mDict :: "KeyType \<Rightarrow> real option"

definition SKIPLIST_MAXLEVEL :: nat where
  "SKIPLIST_MAXLEVEL = 32"

definition ULONG_MOD :: nat where
  "ULONG_MOD = 2 ^ 64"

definition new_level :: SkipListLevel where
  "new_level = \<lparr>mForward = None, mSpan = 0\<rparr>"

text \<open>\<open>SkipListNode(int level)\<close>: the header constructor.\<close>

definition new_header_node :: "nat \<Rightarrow> SkipListNode" where
  "new_header_node level =
     \<lparr>mIsHeader = True, mScore = 0, mKey = [], mBackward = None,
      mLevel = replicate level new_level\<rparr>"

text \<open>\<open>SkipListNode(int level, double score, KeyType key)\<close>.\<close>

definition new_node :: "nat \<Rightarrow> real \<Rightarrow> KeyType \<Rightarrow> SkipListNode" where
  "new_node level score key =
     \<lparr>mIsHeader = False, mScore = score, mKey = key, mBackward = None,
      mLevel = replicate level new_level\<rparr>"

text \<open>The constructor \<open>SortedSet()\<close>.\<close>

definition new_SortedSet :: SortedSet where
  "new_SortedSet =
     \<lparr>mStore = (\<lambda>a. None)(0 := Some (new_header_node SKIPLIST_MAXLEVEL)),
      mNew = 1, mHeader = 0, mTail = None, mLength = 0, mListLevel = 1,
      mDict = (\<lambda>k. None)\<rparr>"

subsection \<open>Memory access\<close>

text \<open>\<open>*x\<close>, \<open>x->mLevel[i]\<close> and the assignments to the fields of a node.\<close>

definition deref :: "SortedSet \<Rightarrow> addr \<Rightarrow> SkipListNode option" where
  "deref st x = mStore st x"

definition level_at :: "SortedSet \<Rightarrow> addr \<Rightarrow> nat \<Rightarrow> SkipListLevel option" where
  "level_at st x i =
     (case mStore st x of
        None \<Rightarrow> None
      | Some n \<Rightarrow> if i < length (mLevel n) then Some (mLevel n ! i) else None)"

definition set_forward :: "addr \<Rightarrow> nat \<Rightarrow> addr option \<Rightarrow> SortedSet \<Rightarrow> SortedSet option" where
  "set_forward x i v st =
     (case mStore st x of
        None \<Rightarrow> None
      | Some n \<Rightarrow>
          if i < length (mLevel n)
          then Some (st\<lparr>mStore := (mStore st)
                 (x := Some (n\<lparr>mLevel := (mLevel n)[i := (mLevel n ! i)\<lparr>mForward := v\<rparr>]\<rparr>))\<rparr>)
          else None)"

definition set_span :: "addr \<Rightarrow> nat \<Rightarrow> nat \<Rightarrow> SortedSet \<Rightarrow> SortedSet option" where
  "set_span x i v st =
     (case mStore st x of
        None \<Rightarrow> None
      | Some n \<Rightarrow>
          if i < length (mLevel n)
          then Some (st\<lparr>mStore := (mStore st)
                 (x := Some (n\<lparr>mLevel := (mLevel n)[i := (mLevel n ! i)\<lparr>mSpan := v\<rparr>]\<rparr>))\<rparr>)
          else None)"

definition set_backward :: "addr \<Rightarrow> addr option \<Rightarrow> SortedSet \<Rightarrow> SortedSet option" where
  "set_backward x v st =
     (case mStore st x of
        None \<Rightarrow> None
      | Some n \<Rightarrow> Some (st\<lparr>mStore := (mStore st)(x := Some (n\<lparr>mBackward := v\<rparr>))\<rparr>))"

text \<open>\<open>new SkipListNode(level, score, key)\<close> and \<open>delete x\<close>.\<close>

definition alloc_node :: "nat \<Rightarrow> real \<Rightarrow> KeyType \<Rightarrow> SortedSet \<Rightarrow> addr \<times> SortedSet" where
  "alloc_node level score key st =
     (mNew st,
      st\<lparr>mStore := (mStore st)(mNew st := Some (new_node level score key)),
         mNew := Suc (mNew st)\<rparr>)"

definition free_node :: "addr \<Rightarrow> SortedSet \<Rightarrow> SortedSet option" where
  "free_node x st =
     (case mStore st x of
        None \<Rightarrow> None
      | Some n \<Rightarrow> Some (st\<lparr>mStore := (mStore st)(x := None)\<rparr>))"

subsection \<open>Loops\<close>

text \<open>
  \<open>for (i = a; i < b; i++)\<close> runs its body over \<open>[a..<b]\<close>, and
  \<open>for (i = mLevel-1; i >= 0; i--)\<close> over \<open>rev [0..<mLevel]\<close>.
\<close>

fun for_loop :: "nat list \<Rightarrow> (nat \<Rightarrow> 's \<Rightarrow> 's option) \<Rightarrow> 's \<Rightarrow> 's option" where
  "for_loop [] body s = Some s"
| "for_loop (i # is) body s = (case body i s of None \<Rightarrow> None | Some s' \<Rightarrow> for_loop is body s')"

text \<open>
  The inner loop of every search:
  \<^verbatim>\<open>while (x->mLevel[i].mForward && C) { acc += x->mLevel[i].mSpan; x = x->mLevel[i].mForward; }\<close>
  The condition \<open>C\<close> sees the node \<open>x->mLevel[i].mForward\<close> points to, the accumulator
  and \<open>x->mLevel[i].mSpan\<close>. Searches that keep no accumulator ignore it.
\<close>

partial_function (option) walk ::
  "(SkipListNode \<Rightarrow> nat \<Rightarrow> nat \<Rightarrow> bool) \<Rightarrow> SortedSet \<Rightarrow> nat \<Rightarrow> addr \<Rightarrow> nat \<Rightarrow> (addr \<times> nat) option"
where
  "walk C st i x acc =
     (case level_at st x i of
        None \<Rightarrow> None
      | Some l \<Rightarrow>
          (case mForward l of
             None \<Rightarrow> Some (x, acc)
           | Some y \<Rightarrow>
               (case deref st y of
                  None \<Rightarrow> None
                | Some n \<Rightarrow>
                    if C n acc (mSpan l) then walk C st i y (acc + mSpan l)
                    else Some (x, acc))))"

declare walk.simps [code]

text \<open>
  The outer loop of the searches that fill \<open>update[]\<close> (and \<open>rank[]\<close>):
  \<^verbatim>\<open>x = mHeader;
  for (i = mLevel-1; i >= 0; i--) {
      rank[i] = i == (mLevel-1) ? 0 : rank[i+1];
      while (...) {...}
      update[i] = x;
  }\<close>
  The result is the last \<open>x\<close> and the two arrays.
\<close>

type_synonym search_state = "addr \<times> (nat \<Rightarrow> addr) \<times> (nat \<Rightarrow> nat)"

definition search_step ::
  "(SkipListNode \<Rightarrow> nat \<Rightarrow> nat \<Rightarrow> bool) \<Rightarrow> SortedSet \<Rightarrow> nat \<Rightarrow> search_state \<Rightarrow> search_state option"
where
  "search_step C st i s =
     (case s of (x, update, rank) \<Rightarrow>
        (case walk C st i x (if i = mListLevel st - 1 then 0 else rank (i + 1)) of
           None \<Rightarrow> None
         | Some (x', r) \<Rightarrow> Some (x', update(i := x'), rank(i := r))))"

definition search_levels ::
  "(SkipListNode \<Rightarrow> nat \<Rightarrow> nat \<Rightarrow> bool) \<Rightarrow> SortedSet \<Rightarrow> search_state option"
where
  "search_levels C st =
     for_loop (rev [0..<mListLevel st]) (search_step C st) (mHeader st, (\<lambda>i. 0), (\<lambda>i. 0))"


section \<open>The skip list\<close>

subsection \<open>\<open>randomlevel\<close>\<close>

text \<open>
  \<open>rnd\<close> is the sequence of values \<open>random()\<close> returns and \<open>n\<close> the number of calls made so
  far. The loop need not end; when it does the level is capped.
\<close>

partial_function (option) randomlevel_loop :: "(nat \<Rightarrow> nat) \<Rightarrow> nat \<Rightarrow> nat \<Rightarrow> nat option" where
  "randomlevel_loop rnd n level =
     (if real (rnd n mod 65536) < 0.25 * 65535
      then randomlevel_loop rnd (Suc n) (level + 1)
      else Some level)"

declare randomlevel_loop.simps [code]

definition randomlevel :: "(nat \<Rightarrow> nat) \<Rightarrow> nat \<Rightarrow> nat option" where
  "randomlevel rnd n =
     (case randomlevel_loop rnd n 1 of
        None \<Rightarrow> None
      | Some level \<Rightarrow> Some (if level < SKIPLIST_MAXLEVEL then level else SKIPLIST_MAXLEVEL))"

subsection \<open>\<open>private_insert\<close>\<close>

text \<open>
  The argument \<open>level\<close> of \<open>private_insert\<close> is the value \<open>randomlevel()\<close> returns at line
  95; the function returns the new state (its callers drop the node pointer).
\<close>

type_synonym insert_state = "SortedSet \<times> (nat \<Rightarrow> addr) \<times> (nat \<Rightarrow> nat)"

text \<open>Lines 97-101: \<open>rank[i] = 0; update[i] = mHeader; update[i]->mLevel[i].mSpan = mLength;\<close>\<close>

definition insert_raise_step :: "nat \<Rightarrow> insert_state \<Rightarrow> insert_state option" where
  "insert_raise_step i s =
     (case s of (st, update, rank) \<Rightarrow>
        do {
          let rank' = rank(i := 0);
          let update' = update(i := mHeader st);
          st' \<leftarrow> set_span (update' i) i (mLength st) st;
          Some (st', update', rank')
        })"

definition insert_raise :: "nat \<Rightarrow> insert_state \<Rightarrow> insert_state option" where
  "insert_raise level s =
     (case s of (st, update, rank) \<Rightarrow>
        if level > mListLevel st then
          do {
            (st', update', rank') \<leftarrow> for_loop [mListLevel st..<level] insert_raise_step s;
            Some (st'\<lparr>mListLevel := level\<rparr>, update', rank')
          }
        else Some s)"

text \<open>Lines 106-112, the body of \<open>for (i = 0; i < level; i++)\<close>.\<close>

definition insert_link_step ::
  "addr \<Rightarrow> (nat \<Rightarrow> addr) \<Rightarrow> (nat \<Rightarrow> nat) \<Rightarrow> nat \<Rightarrow> SortedSet \<Rightarrow> SortedSet option"
where
  "insert_link_step x update rank i st =
     do {
       u \<leftarrow> level_at st (update i) i;
       st1 \<leftarrow> set_forward x i (mForward u) st;
       st2 \<leftarrow> set_forward (update i) i (Some x) st1;
       u2 \<leftarrow> level_at st2 (update i) i;
       st3 \<leftarrow> set_span x i (mSpan u2 - (rank 0 - rank i)) st2;
       set_span (update i) i ((rank 0 - rank i) + 1) st3
     }"

text \<open>Line 117: \<open>update[i]->mLevel[i].mSpan++\<close>.\<close>

definition insert_bump_step :: "(nat \<Rightarrow> addr) \<Rightarrow> nat \<Rightarrow> SortedSet \<Rightarrow> SortedSet option" where
  "insert_bump_step update i st =
     do {
       u \<leftarrow> level_at st (update i) i;
       set_span (update i) i (mSpan u + 1) st
     }"

text \<open>Lines 120-125: the backward link, the tail and the length.\<close>

definition insert_finish :: "addr \<Rightarrow> (nat \<Rightarrow> addr) \<Rightarrow> SortedSet \<Rightarrow> SortedSet option" where
  "insert_finish x update st =
     do {
       st1 \<leftarrow> set_backward x (if update 0 = mHeader st then None else Some (update 0)) st;
       xl \<leftarrow> level_at st1 x 0;
       st2 \<leftarrow> (case mForward xl of
                 Some y \<Rightarrow> set_backward y (Some x) st1
               | None \<Rightarrow> Some (st1\<lparr>mTail := Some x\<rparr>));
       Some (st2\<lparr>mLength := mLength st2 + 1\<rparr>)
     }"

definition private_insert :: "nat \<Rightarrow> real \<Rightarrow> KeyType \<Rightarrow> SortedSet \<Rightarrow> SortedSet option" where
  "private_insert level score key st =
     do {
       (x0, update0, rank0) \<leftarrow> search_levels (\<lambda>n acc span. mScore n < score) st;
       (st1, update, rank) \<leftarrow> insert_raise level (st, update0, rank0);
       let (x, st2) = alloc_node level score key st1;
       st3 \<leftarrow> for_loop [0..<level] (insert_link_step x update rank) st2;
       st4 \<leftarrow> for_loop [level..<mListLevel st3] (insert_bump_step update) st3;
       insert_finish x update st4
     }"

subsection \<open>\<open>private_delete_node\<close> and \<open>private_delete\<close>\<close>

text \<open>
  Lines 133-138. \<open>update[i]->mLevel[i].mSpan += x->mLevel[i].mSpan - 1\<close> is computed on
  \<open>unsigned int\<close>, where adding \<open>x->mLevel[i].mSpan - 1\<close> is adding the span and
  subtracting one.
\<close>

definition delete_unlink_step :: "addr \<Rightarrow> (nat \<Rightarrow> addr) \<Rightarrow> nat \<Rightarrow> SortedSet \<Rightarrow> SortedSet option" where
  "delete_unlink_step x update i st =
     do {
       u \<leftarrow> level_at st (update i) i;
       if mForward u = Some x then
         do {
           xl \<leftarrow> level_at st x i;
           st1 \<leftarrow> set_span (update i) i (mSpan u + mSpan xl - 1) st;
           xl' \<leftarrow> level_at st1 x i;
           set_forward (update i) i (mForward xl') st1
         }
       else set_span (update i) i (mSpan u - 1) st
     }"

text \<open>Line 145: \<open>while (mLevel > 1 && mHeader->mLevel[mLevel-1].mForward == NULL) mLevel--;\<close>\<close>

fun shrink_level :: "SortedSet \<Rightarrow> nat \<Rightarrow> nat option" where
  "shrink_level st (Suc (Suc l)) =
     (case level_at st (mHeader st) (Suc l) of
        None \<Rightarrow> None
      | Some h \<Rightarrow> if mForward h = None then shrink_level st (Suc l) else Some (Suc (Suc l)))"
| "shrink_level st l = Some l"

definition private_delete_node :: "addr \<Rightarrow> (nat \<Rightarrow> addr) \<Rightarrow> SortedSet \<Rightarrow> SortedSet option" where
  "private_delete_node x update st =
     do {
       st1 \<leftarrow> for_loop [0..<mListLevel st] (delete_unlink_step x update) st;
       xl \<leftarrow> level_at st1 x 0;
       xn \<leftarrow> deref st1 x;
       st2 \<leftarrow> (case mForward xl of
                 Some y \<Rightarrow> set_backward y (mBackward xn) st1
               | None \<Rightarrow> Some (st1\<lparr>mTail := mBackward xn\<rparr>));
       l \<leftarrow> shrink_level st2 (mListLevel st2);
       Some (st2\<lparr>mListLevel := l, mLength := mLength st2 - 1\<rparr>)
     }"

definition private_delete :: "real \<Rightarrow> KeyType \<Rightarrow> SortedSet \<Rightarrow> (bool \<times> SortedSet) option" where
  "private_delete score key st =
     do {
       (x0, update, rank) \<leftarrow> search_levels (\<lambda>n acc span. mScore n < score) st;
       xl \<leftarrow> level_at st x0 0;
       (case mForward xl of
          None \<Rightarrow> Some (False, st)
        | Some x \<Rightarrow>
            do {
              n \<leftarrow> deref st x;
              if score = mScore n \<and> mKey n = key then
                do {
                  st1 \<leftarrow> private_delete_node x update st;
                  st2 \<leftarrow> free_node x st1;
                  Some (True, st2)
                }
              else Some (False, st)
            })
     }"


subsection \<open>Score ranges\<close>

definition score_gte_min :: "real \<Rightarrow> RangeSpec \<Rightarrow> bool" where
  "score_gte_min score spec = (if mMinex spec then score > mMin spec else score \<ge> mMin spec)"

definition score_lte_max :: "real \<Rightarrow> RangeSpec \<Rightarrow> bool" where
  "score_lte_max score spec = (if mMaxex spec then score < mMax spec else score \<le> mMax spec)"

definition is_in_range :: "RangeSpec \<Rightarrow> SortedSet \<Rightarrow> bool option" where
  "is_in_range rng st =
     (if mMin rng > mMax rng \<or> (mMin rng = mMax rng \<and> (mMinex rng \<or> mMaxex rng))
      then Some False
      else
        (case mTail st of
           None \<Rightarrow> Some False
         | Some t \<Rightarrow>
             do {
               tn \<leftarrow> deref st t;
               if \<not> score_gte_min (mScore tn) rng then Some False
               else
                 do {
                   hl \<leftarrow> level_at st (mHeader st) 0;
                   (case mForward hl of
                      None \<Rightarrow> Some False
                    | Some f \<Rightarrow>
                        do {
                          fn \<leftarrow> deref st f;
                          if \<not> score_lte_max (mScore fn) rng then Some False else Some True
                        })
                 }
             }))"

text \<open>
  \<open>first_in_range\<close> and \<open>last_in_range\<close> return \<open>Some None\<close> for \<open>NULL\<close>; their
  \<open>assert(x != NULL)\<close> is the \<open>None\<close> branch.
\<close>

definition first_in_range :: "RangeSpec \<Rightarrow> SortedSet \<Rightarrow> addr option option" where
  "first_in_range rng st =
     do {
       inr \<leftarrow> is_in_range rng st;
       if \<not> inr then Some None
       else
         do {
           (x0, update, rank) \<leftarrow> search_levels (\<lambda>n acc span. \<not> score_gte_min (mScore n) rng) st;
           xl \<leftarrow> level_at st x0 0;
           (case mForward xl of
              None \<Rightarrow> None
            | Some x \<Rightarrow>
                do {
                  n \<leftarrow> deref st x;
                  if \<not> score_lte_max (mScore n) rng then Some None else Some (Some x)
                })
         }
     }"

definition last_in_range :: "RangeSpec \<Rightarrow> SortedSet \<Rightarrow> addr option option" where
  "last_in_range rng st =
     do {
       inr \<leftarrow> is_in_range rng st;
       if \<not> inr then Some None
       else
         do {
           (x, update, rank) \<leftarrow> search_levels (\<lambda>n acc span. score_lte_max (mScore n) rng) st;
           n \<leftarrow> deref st x;
           if \<not> score_gte_min (mScore n) rng then Some None else Some (Some x)
         }
     }"

subsection \<open>Range deletion\<close>

text \<open>
  The loop shared by \<open>private_delete_range_by_score\<close> (lines 269-276, condition on
  \<open>x->mScore\<close>) and \<open>private_delete_range_by_rank\<close> (lines 298-306, condition
  \<open>traversed <= end\<close>); the by-score loop keeps no \<open>traversed\<close>.
\<close>

partial_function (option) delete_loop ::
  "(SkipListNode \<Rightarrow> nat \<Rightarrow> bool) \<Rightarrow> (nat \<Rightarrow> addr) \<Rightarrow> addr option \<Rightarrow> nat \<Rightarrow> nat \<Rightarrow> SortedSet
     \<Rightarrow> (nat \<times> SortedSet) option"
where
  "delete_loop C update x traversed removed st =
     (case x of
        None \<Rightarrow> Some (removed, st)
      | Some a \<Rightarrow>
          (case deref st a of
             None \<Rightarrow> None
           | Some n \<Rightarrow>
               if C n traversed then
                 (case level_at st a 0 of
                    None \<Rightarrow> None
                  | Some xl \<Rightarrow>
                      (case private_delete_node a update st of
                         None \<Rightarrow> None
                       | Some st1 \<Rightarrow>
                           (case deref st1 a of
                              None \<Rightarrow> None
                            | Some n1 \<Rightarrow>
                                (case free_node a (st1\<lparr>mDict := (mDict st1)(mKey n1 := None)\<rparr>) of
                                   None \<Rightarrow> None
                                 | Some st2 \<Rightarrow>
                                     delete_loop C update (mForward xl) (traversed + 1)
                                       (removed + 1) st2))))
               else Some (removed, st)))"

declare delete_loop.simps [code]

definition private_delete_range_by_score :: "RangeSpec \<Rightarrow> SortedSet \<Rightarrow> (nat \<times> SortedSet) option" where
  "private_delete_range_by_score rng st =
     do {
       (x0, update, rank) \<leftarrow>
         search_levels (\<lambda>n acc span. if mMinex rng then mScore n \<le> mMin rng
                                      else mScore n < mMin rng) st;
       xl \<leftarrow> level_at st x0 0;
       delete_loop (\<lambda>n traversed. if mMaxex rng then mScore n < mMax rng
                                   else mScore n \<le> mMax rng)
         update (mForward xl) 0 0 st
     }"

definition private_delete_range_by_rank :: "nat \<Rightarrow> nat \<Rightarrow> SortedSet \<Rightarrow> (nat \<times> SortedSet) option" where
  "private_delete_range_by_rank start stop st =
     do {
       (x0, update, rank) \<leftarrow> search_levels (\<lambda>n traversed span. traversed + span < start) st;
       let traversed = rank 0 + 1;
       xl \<leftarrow> level_at st x0 0;
       delete_loop (\<lambda>n traversed. traversed \<le> stop) update (mForward xl) traversed 0 st
     }"

subsection \<open>Rank queries\<close>

text \<open>
  \<open>get_rank\<close>, lines 319-331; the first argument of the loop is \<open>i + 1\<close>. The result
  \<open>Some 0\<close> is the source's \<open>return 0\<close>.
\<close>

fun get_rank_loop :: "SortedSet \<Rightarrow> real \<Rightarrow> KeyType \<Rightarrow> nat \<Rightarrow> addr \<Rightarrow> nat \<Rightarrow> nat option" where
  "get_rank_loop st score key 0 x rank = Some 0"
| "get_rank_loop st score key (Suc i) x rank =
     (case walk (\<lambda>n acc span. mScore n \<le> score) st i x rank of
        None \<Rightarrow> None
      | Some (x', rank') \<Rightarrow>
          (case deref st x' of
             None \<Rightarrow> None
           | Some n \<Rightarrow>
               if \<not> mIsHeader n \<and> mKey n = key then Some rank'
               else get_rank_loop st score key i x' rank'))"

definition get_rank :: "real \<Rightarrow> KeyType \<Rightarrow> SortedSet \<Rightarrow> nat option" where
  "get_rank score key st = get_rank_loop st score key (mListLevel st) (mHeader st) 0"

text \<open>\<open>get_element_by_rank\<close>, lines 340-351; \<open>Some None\<close> is \<open>return NULL\<close>.\<close>

fun get_element_by_rank_loop :: "SortedSet \<Rightarrow> nat \<Rightarrow> nat \<Rightarrow> addr \<Rightarrow> nat \<Rightarrow> addr option option" where
  "get_element_by_rank_loop st rank 0 x traversed = Some None"
| "get_element_by_rank_loop st rank (Suc i) x traversed =
     (case walk (\<lambda>n acc span. acc + span \<le> rank) st i x traversed of
        None \<Rightarrow> None
      | Some (x', traversed') \<Rightarrow>
          if traversed' = rank then Some (Some x')
          else get_element_by_rank_loop st rank i x' traversed')"

definition get_element_by_rank :: "nat \<Rightarrow> SortedSet \<Rightarrow> addr option option" where
  "get_element_by_rank rank st =
     get_element_by_rank_loop st rank (mListLevel st) (mHeader st) 0"


section \<open>The sorted set\<close>

subsection \<open>\<open>zadd_generic\<close>\<close>

text \<open>
  \<open>level\<close> is what \<open>randomlevel()\<close> returns if \<open>private_insert\<close> is called. The result of
  \<open>private_delete\<close> is dropped, as in the source.
\<close>

definition zadd_generic :: "nat \<Rightarrow> KeyType \<Rightarrow> real \<Rightarrow> bool \<Rightarrow> SortedSet \<Rightarrow> SortedSet option" where
  "zadd_generic level key score incr st =
     (case mDict st key of
        Some curscore \<Rightarrow>
          (let score' = (if incr then score + curscore else score) in
           if score' \<noteq> curscore then
             do {
               (found, st1) \<leftarrow> private_delete curscore key st;
               st2 \<leftarrow> private_insert level score' key st1;
               Some (st2\<lparr>mDict := (mDict st2)(key := Some score')\<rparr>)
             }
           else Some st)
      | None \<Rightarrow>
          do {
            st1 \<leftarrow> private_insert level score key st;
            Some (st1\<lparr>mDict := (mDict st1)(key := Some score)\<rparr>)
          })"

subsection \<open>Ranges by rank\<close>

text \<open>
  The walk of \<open>zrange_generic\<close> and \<open>zrange_withscores_generic\<close> (lines 402-406 and
  438-442); \<open>emit\<close> is what is pushed for a node (its key, or its key and score). The
  \<open>None\<close> of the first case is \<open>assert(ln != NULL)\<close> failing.
\<close>

fun range_walk ::
  "(SkipListNode \<Rightarrow> 'a) \<Rightarrow> bool \<Rightarrow> SortedSet \<Rightarrow> nat \<Rightarrow> addr option \<Rightarrow> 'a list \<Rightarrow> 'a list option"
where
  "range_walk emit reverse st 0 lnode result = Some result"
| "range_walk emit reverse st (Suc rangelen) lnode result =
     (case lnode of
        None \<Rightarrow> None
      | Some a \<Rightarrow>
          (case deref st a of
             None \<Rightarrow> None
           | Some n \<Rightarrow>
               (case (if reverse then Some (mBackward n)
                      else map_option mForward (level_at st a 0)) of
                  None \<Rightarrow> None
                | Some nxt \<Rightarrow> range_walk emit reverse st rangelen nxt (result @ [emit n]))))"

text \<open>\<open>start\<close> and \<open>end\<close> are \<open>long\<close>; none of the additions of the source can overflow.\<close>

definition zrange_any ::
  "(SkipListNode \<Rightarrow> 'a) \<Rightarrow> int \<Rightarrow> int \<Rightarrow> bool \<Rightarrow> SortedSet \<Rightarrow> 'a list option"
where
  "zrange_any emit start stop reverse st =
     (let llen = int (mLength st);
          start1 = (if start < 0 then llen + start else start);
          end1 = (if stop < 0 then llen + stop else stop);
          start2 = (if start1 < 0 then 0 else start1)
      in
        if start2 > end1 \<or> start2 \<ge> llen then Some []
        else
          (let end2 = (if end1 \<ge> llen then llen - 1 else end1);
               rangelen = nat ((end2 - start2) + 1)
           in
             do {
               lnode \<leftarrow> (if reverse then
                         (if start2 > 0 then get_element_by_rank (nat (llen - start2)) st
                          else Some (mTail st))
                       else
                         do {
                           hl \<leftarrow> level_at st (mHeader st) 0;
                           if start2 > 0 then get_element_by_rank (nat (start2 + 1)) st
                           else Some (mForward hl)
                         });
               range_walk emit reverse st rangelen lnode []
             }))"

definition zrange_generic :: "int \<Rightarrow> int \<Rightarrow> bool \<Rightarrow> SortedSet \<Rightarrow> KeyType list option" where
  "zrange_generic start stop reverse st = zrange_any mKey start stop reverse st"

definition zrange_withscores_generic ::
  "int \<Rightarrow> int \<Rightarrow> bool \<Rightarrow> SortedSet \<Rightarrow> (KeyType \<times> real) list option"
where
  "zrange_withscores_generic start stop reverse st =
     zrange_any (\<lambda>n. (mKey n, mScore n)) start stop reverse st"

subsection \<open>Ranges by score\<close>

text \<open>The loop \<open>while (ln)\<close> of lines 462-478 and 498-514.\<close>

partial_function (option) byscore_walk ::
  "(SkipListNode \<Rightarrow> 'a) \<Rightarrow> bool \<Rightarrow> RangeSpec \<Rightarrow> SortedSet \<Rightarrow> addr option \<Rightarrow> 'a list \<Rightarrow> 'a list option"
where
  "byscore_walk emit reverse rng st lnode result =
     (case lnode of
        None \<Rightarrow> Some result
      | Some a \<Rightarrow>
          (case deref st a of
             None \<Rightarrow> None
           | Some n \<Rightarrow>
               if (if reverse then \<not> score_gte_min (mScore n) rng
                   else \<not> score_lte_max (mScore n) rng)
               then Some result
               else
                 (case (if reverse then Some (mBackward n)
                        else map_option mForward (level_at st a 0)) of
                    None \<Rightarrow> None
                  | Some nxt \<Rightarrow> byscore_walk emit reverse rng st nxt (result @ [emit n]))))"

declare byscore_walk.simps [code]

definition zrangebyscore_any ::
  "(SkipListNode \<Rightarrow> 'a) \<Rightarrow> real \<Rightarrow> real \<Rightarrow> bool \<Rightarrow> bool \<Rightarrow> bool \<Rightarrow> SortedSet \<Rightarrow> 'a list option"
where
  "zrangebyscore_any emit minS maxS reverse minex maxex st =
     (let rng = \<lparr>mMin = (if reverse then maxS else minS), mMax = (if reverse then minS else maxS),
                 mMinex = (if reverse then maxex else minex),
                 mMaxex = (if reverse then minex else maxex)\<rparr>
      in
        do {
          lnode \<leftarrow> (if reverse then last_in_range rng st else first_in_range rng st);
          (case lnode of
             None \<Rightarrow> Some []
           | Some a \<Rightarrow> byscore_walk emit reverse rng st lnode [])
        })"

definition zrangebyscore_generic ::
  "real \<Rightarrow> real \<Rightarrow> bool \<Rightarrow> bool \<Rightarrow> bool \<Rightarrow> SortedSet \<Rightarrow> KeyType list option"
where
  "zrangebyscore_generic minS maxS reverse minex maxex st =
     zrangebyscore_any mKey minS maxS reverse minex maxex st"

definition zrangebyscore_withscores_generic ::
  "real \<Rightarrow> real \<Rightarrow> bool \<Rightarrow> bool \<Rightarrow> bool \<Rightarrow> SortedSet \<Rightarrow> (KeyType \<times> real) list option"
where
  "zrangebyscore_withscores_generic minS maxS reverse minex maxex st =
     zrangebyscore_any (\<lambda>n. (mKey n, mScore n)) minS maxS reverse minex maxex st"

subsection \<open>\<open>zrank_generic\<close>\<close>

text \<open>
  The result is \<open>Some None\<close> for \<open>return false\<close> and \<open>Some (Some rank)\<close> for \<open>return true\<close>
  with the output parameter. \<open>rank\<close> is \<open>unsigned long\<close>: \<open>llen - rank\<close> and \<open>rank -= 1\<close>
  wrap around.
\<close>

definition usub :: "nat \<Rightarrow> nat \<Rightarrow> nat" where
  "usub a b = (a + ULONG_MOD - b mod ULONG_MOD) mod ULONG_MOD"

definition zrank_generic :: "KeyType \<Rightarrow> bool \<Rightarrow> SortedSet \<Rightarrow> nat option option" where
  "zrank_generic key reverse st =
     (let llen = mLength st in
        case mDict st key of
          Some score \<Rightarrow>
            do {
              rank \<leftarrow> get_rank score key st;
              Some (Some (if reverse then usub llen rank else usub rank 1))
            }
        | None \<Rightarrow> Some None)"

subsection \<open>The public functions\<close>

definition zadd :: "nat \<Rightarrow> KeyType \<Rightarrow> real \<Rightarrow> SortedSet \<Rightarrow> SortedSet option" where
  "zadd level key score st = zadd_generic level key score False st"

definition zincrby :: "nat \<Rightarrow> KeyType \<Rightarrow> real \<Rightarrow> SortedSet \<Rightarrow> SortedSet option" where
  "zincrby level key score st = zadd_generic level key score True st"

definition zrem :: "KeyType \<Rightarrow> SortedSet \<Rightarrow> SortedSet option" where
  "zrem key st =
     (case mDict st key of
        Some score \<Rightarrow>
          do {
            (found, st1) \<leftarrow> private_delete score key st;
            Some (st1\<lparr>mDict := (mDict st1)(key := None)\<rparr>)
          }
      | None \<Rightarrow> Some st)"

definition zremrangebyscore :: "real \<Rightarrow> real \<Rightarrow> bool \<Rightarrow> bool \<Rightarrow> SortedSet \<Rightarrow> SortedSet option" where
  "zremrangebyscore minS maxS minex maxex st =
     map_option snd
       (private_delete_range_by_score \<lparr>mMin = minS, mMax = maxS, mMinex = minex, mMaxex = maxex\<rparr> st)"

definition zremrangebyrank :: "int \<Rightarrow> int \<Rightarrow> SortedSet \<Rightarrow> SortedSet option" where
  "zremrangebyrank start stop st =
     (let llen = int (mLength st);
          start1 = (if start < 0 then llen + start else start);
          end1 = (if stop < 0 then llen + stop else stop);
          start2 = (if start1 < 0 then 0 else start1)
      in
        if start2 > end1 \<or> start2 \<ge> llen then Some st
        else
          (let end2 = (if end1 \<ge> llen then llen - 1 else end1)
           in map_option snd (private_delete_range_by_rank (nat (start2 + 1)) (nat (end2 + 1)) st)))"

definition zrange :: "int \<Rightarrow> int \<Rightarrow> SortedSet \<Rightarrow> KeyType list option" where
  "zrange start stop st = zrange_generic start stop False st"

definition zrevrange :: "int \<Rightarrow> int \<Rightarrow> SortedSet \<Rightarrow> KeyType list option" where
  "zrevrange start stop st = zrange_generic start stop True st"

definition zrange_withscores :: "int \<Rightarrow> int \<Rightarrow> SortedSet \<Rightarrow> (KeyType \<times> real) list option" where
  "zrange_withscores start stop st = zrange_withscores_generic start stop False st"

definition zrevrange_withscores :: "int \<Rightarrow> int \<Rightarrow> SortedSet \<Rightarrow> (KeyType \<times> real) list option" where
  "zrevrange_withscores start stop st = zrange_withscores_generic start stop True st"

definition zrangebyscore :: "real \<Rightarrow> real \<Rightarrow> bool \<Rightarrow> bool \<Rightarrow> SortedSet \<Rightarrow> KeyType list option" where
  "zrangebyscore minS maxS minex maxex st = zrangebyscore_generic minS maxS False minex maxex st"

definition zrevrangebyscore :: "real \<Rightarrow> real \<Rightarrow> bool \<Rightarrow> bool \<Rightarrow> SortedSet \<Rightarrow> KeyType list option" where
  "zrevrangebyscore minS maxS minex maxex st = zrangebyscore_generic minS maxS True minex maxex st"

definition zrangebyscore_withscores ::
  "real \<Rightarrow> real \<Rightarrow> bool \<Rightarrow> bool \<Rightarrow> SortedSet \<Rightarrow> (KeyType \<times> real) list option"
where
  "zrangebyscore_withscores minS maxS minex maxex st =
     zrangebyscore_withscores_generic minS maxS False minex maxex st"

definition zrevrangebyscore_withscores ::
  "real \<Rightarrow> real \<Rightarrow> bool \<Rightarrow> bool \<Rightarrow> SortedSet \<Rightarrow> (KeyType \<times> real) list option"
where
  "zrevrangebyscore_withscores minS maxS minex maxex st =
     zrangebyscore_withscores_generic minS maxS True minex maxex st"

text \<open>
  \<open>zcount\<close>, lines 606-630. \<open>count\<close> and \<open>rank\<close> are \<open>unsigned long\<close>: every subtraction is
  modulo \<open>2 ^ 64\<close>.
\<close>

definition zcount :: "real \<Rightarrow> real \<Rightarrow> bool \<Rightarrow> bool \<Rightarrow> SortedSet \<Rightarrow> nat option" where
  "zcount minS maxS minex maxex st =
     (let rng = \<lparr>mMin = minS, mMax = maxS, mMinex = minex, mMaxex = maxex\<rparr> in
        do {
          zn \<leftarrow> first_in_range rng st;
          (case zn of
             None \<Rightarrow> Some 0
           | Some a \<Rightarrow>
               do {
                 n \<leftarrow> deref st a;
                 rank \<leftarrow> get_rank (mScore n) (mKey n) st;
                 let count = usub (mLength st) (usub rank 1);
                 zn' \<leftarrow> last_in_range rng st;
                 (case zn' of
                    None \<Rightarrow> Some count
                  | Some b \<Rightarrow>
                      do {
                        n' \<leftarrow> deref st b;
                        rank' \<leftarrow> get_rank (mScore n') (mKey n') st;
                        Some (usub count (usub (mLength st) rank'))
                      })
               })
        })"

definition zcard :: "SortedSet \<Rightarrow> nat" where
  "zcard st = mLength st"

text \<open>\<open>zscore\<close>: \<open>None\<close> is \<open>return false\<close>, \<open>Some score\<close> is \<open>return true\<close> with the score.\<close>

definition zscore :: "KeyType \<Rightarrow> SortedSet \<Rightarrow> real option" where
  "zscore key st = mDict st key"

definition zrank :: "KeyType \<Rightarrow> SortedSet \<Rightarrow> nat option option" where
  "zrank key st = zrank_generic key False st"

definition zrevrank :: "KeyType \<Rightarrow> SortedSet \<Rightarrow> nat option option" where
  "zrevrank key st = zrank_generic key True st"

section \<open>Sequences of public operations\<close>

text \<open>
  The mutating public functions as commands. Every command comes with the level
  \<open>randomlevel()\<close> returns if the command inserts a node.
\<close>

datatype command =
  ZAdd KeyType real
| ZIncrBy KeyType real
| ZRem KeyType
| ZRemRangeByScore real real bool bool
| ZRemRangeByRank int int

fun exec :: "nat \<Rightarrow> command \<Rightarrow> SortedSet \<Rightarrow> SortedSet option" where
  "exec level (ZAdd key score) st = zadd level key score st"
| "exec level (ZIncrBy key score) st = zincrby level key score st"
| "exec level (ZRem key) st = zrem key st"
| "exec level (ZRemRangeByScore minS maxS minex maxex) st = zremrangebyscore minS maxS minex maxex st"
| "exec level (ZRemRangeByRank start stop) st = zremrangebyrank start stop st"

fun run :: "(nat \<times> command) list \<Rightarrow> SortedSet \<Rightarrow> SortedSet option" where
  "run [] st = Some st"
| "run ((level, c) # cs) st = (case exec level c st of None \<Rightarrow> None | Some st' \<Rightarrow> run cs st')"

text \<open>
  The states the public operations reach from the constructor, whatever levels
  (between 1 and \<open>SKIPLIST_MAXLEVEL\<close>) \<open>randomlevel\<close> returns.
\<close>

inductive reachable :: "SortedSet \<Rightarrow> bool" where
  reachable_new: "reachable new_SortedSet"
| reachable_exec:
    "reachable st \<Longrightarrow> 1 \<le> level \<Longrightarrow> level \<le> SKIPLIST_MAXLEVEL \<Longrightarrow> exec level c st = Some st'
       \<Longrightarrow> reachable st'"

subsection \<open>The rank the specification promises\<close>

text \<open>
  The rank as the specification words it, over the stored elements in the order of their
  insertion: one plus the number of elements with a strictly smaller score, or with an
  equal score and inserted earlier.
\<close>

definition spec_rank :: "(KeyType \<times> real) list \<Rightarrow> KeyType \<Rightarrow> real \<Rightarrow> nat" where
  "spec_rank inserted key score =
     1 + length (filter (\<lambda>(k, s). s < score) inserted)
       + length (filter (\<lambda>(k, s). s = score) (takeWhile (\<lambda>(k, s). k \<noteq> key) inserted))"

section \<open>Two keys with one score\<close>

lemma two_fives_facts:
  "map_option
     (\<lambda>s. (first_in_range \<lparr>mMin = 5, mMax = 5, mMinex = False, mMaxex = False\<rparr> s,
           last_in_range \<lparr>mMin = 5, mMax = 5, mMinex = False, mMaxex = False\<rparr> s,
           map_option (\<lambda>n. (mScore n, mKey n)) (deref s 1),
           map_option (\<lambda>n. (mScore n, mKey n)) (deref s 2),
           get_rank 5 ''x'' s, get_rank 5 ''y'' s, mLength s, mDict s ''y'',
           zrange_withscores 0 (- 1) s))
     (run [(1, ZAdd ''x'' 5), (1, ZAdd ''y'' 5)] new_SortedSet)
   = Some (Some (Some 2), Some (Some 1), Some (5, ''x''), Some (5, ''y''), Some 2, Some 0, 2,
           Some 5, Some [(''y'', 5), (''x'', 5)])"
  by code_simp

lemma two_fives_higher_facts:
  "map_option (\<lambda>s. (get_rank 5 ''y'' s, mLength s, mDict s ''y''))
     (run [(1, ZAdd ''x'' 5), (2, ZAdd ''y'' 5)] new_SortedSet)
   = Some (Some 1, 2, Some 5)"
  by code_simp

lemma two_fives_zrem_facts:
  "map_option (\<lambda>s. (zrange_withscores 0 (- 1) s, zcard s, zscore ''x'' s, zscore ''y'' s))
     (run [(1, ZAdd ''x'' 5), (1, ZAdd ''y'' 5), (1, ZRem ''x'')] new_SortedSet)
   = Some (Some [(''y'', 5), (''x'', 5)], 2, None, Some 5)"
  by code_simp

text \<open>
  C1. \<open>zadd("x", 5)\<close>, \<open>zadd("y", 5)\<close>, \<open>zrem("x")\<close>: \<open>private_delete\<close> stops in front of the
  node of \<open>y\<close>, which has the score but not the key, and returns \<open>false\<close>; \<open>zrem\<close> erases
  \<open>x\<close> from the index all the same. Afterwards the list holds two nodes (\<open>zcard\<close> is 2 and
  \<open>zrange\<close> returns both keys) while the index has no score for \<open>x\<close>.
\<close>

theorem zrem_equal_score_breaks_parity:
  "Option.bind (run [(1, ZAdd ''x'' 5), (1, ZAdd ''y'' 5), (1, ZRem ''x'')] new_SortedSet)
     (zrange_withscores 0 (- 1)) = Some [(''y'', 5), (''x'', 5)]
   \<and> map_option zcard (run [(1, ZAdd ''x'' 5), (1, ZAdd ''y'' 5), (1, ZRem ''x'')] new_SortedSet)
       = Some 2
   \<and> map_option (zscore ''x'')
       (run [(1, ZAdd ''x'' 5), (1, ZAdd ''y'' 5), (1, ZRem ''x'')] new_SortedSet) = Some None
   \<and> map_option (zscore ''y'')
       (run [(1, ZAdd ''x'' 5), (1, ZAdd ''y'' 5), (1, ZRem ''x'')] new_SortedSet) = Some (Some 5)"
proof -
  obtain s where s: "run [(1, ZAdd ''x'' 5), (1, ZAdd ''y'' 5), (1, ZRem ''x'')] new_SortedSet = Some s"
    using two_fives_zrem_facts
    by (cases "run [(1, ZAdd ''x'' 5), (1, ZAdd ''y'' 5), (1, ZRem ''x'')] new_SortedSet") simp_all
  show ?thesis
    using two_fives_zrem_facts unfolding s by simp
qed

text \<open>
  C3. With two elements of score 5, both of level 1, \<open>zcount(5, 5)\<close> is 3: \<open>get_rank\<close>
  returns 0 for the first element in range, and \<open>rank - 1\<close> wraps around.
\<close>

theorem zcount_equal_scores_three:
  "Option.bind (run [(1, ZAdd ''x'' 5), (1, ZAdd ''y'' 5)] new_SortedSet)
     (zcount 5 5 False False) = Some 3
   \<and> Option.bind (run [(1, ZAdd ''x'' 5), (1, ZAdd ''y'' 5)] new_SortedSet)
       (zrange_withscores 0 (- 1)) = Some [(''y'', 5), (''x'', 5)]"
proof -
  obtain s where s: "run [(1, ZAdd ''x'' 5), (1, ZAdd ''y'' 5)] new_SortedSet = Some s"
    using two_fives_facts
    by (cases "run [(1, ZAdd ''x'' 5), (1, ZAdd ''y'' 5)] new_SortedSet") simp_all
  have f: "first_in_range \<lparr>mMin = 5, mMax = 5, mMinex = False, mMaxex = False\<rparr> s = Some (Some 2)"
    "last_in_range \<lparr>mMin = 5, mMax = 5, mMinex = False, mMaxex = False\<rparr> s = Some (Some 1)"
    "map_option (\<lambda>n. (mScore n, mKey n)) (deref s 1) = Some (5, ''x'')"
    "map_option (\<lambda>n. (mScore n, mKey n)) (deref s 2) = Some (5, ''y'')"
    "get_rank 5 ''x'' s = Some 2" "get_rank 5 ''y'' s = Some 0" "mLength s = 2"
    "zrange_withscores 0 (- 1) s = Some [(''y'', 5), (''x'', 5)]"
    using two_fives_facts unfolding s by simp_all
  from f(3,4) obtain n1 n2 where n: "deref s 1 = Some n1" "mScore n1 = 5" "mKey n1 = ''x''"
    "deref s 2 = Some n2" "mScore n2 = 5" "mKey n2 = ''y''"
    by auto
  from f n show ?thesis
    unfolding s by (simp add: zcount_def usub_def ULONG_MOD_def)
qed

text \<open>
  C9. The same two insertions, and the same query \<open>zrank("y")\<close>: the answer is
  \<open>2 ^ 64 - 1\<close> when both nodes have level 1 and 0 when the node of \<open>y\<close> has level 2.
\<close>

theorem zrank_depends_on_levels:
  "Option.bind (run [(1, ZAdd ''x'' 5), (1, ZAdd ''y'' 5)] new_SortedSet) (zrank ''y'')
     = Some (Some 18446744073709551615)
   \<and> Option.bind (run [(1, ZAdd ''x'' 5), (2, ZAdd ''y'' 5)] new_SortedSet) (zrank ''y'')
       = Some (Some 0)"
proof -
  obtain s where s: "run [(1, ZAdd ''x'' 5), (1, ZAdd ''y'' 5)] new_SortedSet = Some s"
    using two_fives_facts
    by (cases "run [(1, ZAdd ''x'' 5), (1, ZAdd ''y'' 5)] new_SortedSet") simp_all
  obtain t where t: "run [(1, ZAdd ''x'' 5), (2, ZAdd ''y'' 5)] new_SortedSet = Some t"
    using two_fives_higher_facts
    by (cases "run [(1, ZAdd ''x'' 5), (2, ZAdd ''y'' 5)] new_SortedSet") simp_all
  have f: "get_rank 5 ''y'' s = Some 0" "mDict s ''y'' = Some 5"
    using two_fives_facts unfolding s by simp_all
  have g: "get_rank 5 ''y'' t = Some 1" "mDict t ''y'' = Some 5"
    using two_fives_higher_facts unfolding t by simp_all
  show ?thesis
    unfolding s t by (simp add: zrank_def zrank_generic_def f g usub_def ULONG_MOD_def)
qed

text \<open>
  C2, as stated, fails after \<open>zadd("x", 5)\<close>, \<open>zadd("y", 5)\<close>: \<open>x\<close> was inserted first, so
  the specification's rank of \<open>x\<close> is 1, and \<open>get_rank\<close> returns 2, since the later \<open>y\<close>
  was placed in front of it.
\<close>

theorem get_rank_not_spec_rank:
  "Option.bind (run [(1, ZAdd ''x'' 5), (1, ZAdd ''y'' 5)] new_SortedSet) (get_rank 5 ''x'')
     = Some 2
   \<and> spec_rank [(''x'', 5), (''y'', 5)] ''x'' 5 = 1"
proof -
  obtain s where s: "run [(1, ZAdd ''x'' 5), (1, ZAdd ''y'' 5)] new_SortedSet = Some s"
    using two_fives_facts
    by (cases "run [(1, ZAdd ''x'' 5), (1, ZAdd ''y'' 5)] new_SortedSet") simp_all
  have "get_rank 5 ''x'' s = Some 2"
    using two_fives_facts unfolding s by simp
  then show ?thesis
    unfolding s by (simp add: spec_rank_def)
qed

section \<open>Absent keys\<close>

text \<open>
  C7. For a key the index does not hold, \<open>zrem\<close> returns normally and leaves the state as
  it is, \<open>zscore\<close> returns \<open>false\<close>, and \<open>zrank\<close> and \<open>zrevrank\<close> return \<open>false\<close>; the queries
  take the state and return no new one.
\<close>

theorem absent_key_reported:
  assumes "mDict st key = None"
  shows "zrem key st = Some st \<and> zscore key st = None
         \<and> zrank_generic key reverse st = Some None
         \<and> zrank key st = Some None \<and> zrevrank key st = Some None"
  using assms by (simp add: zrem_def zscore_def zrank_generic_def zrank_def zrevrank_def)

theorem absent_key_reported_witness:
  "mDict new_SortedSet ''x'' = None
   \<and> zrem ''x'' new_SortedSet = Some new_SortedSet \<and> zscore ''x'' new_SortedSet = None
   \<and> zrank_generic ''x'' True new_SortedSet = Some None
   \<and> zrank ''x'' new_SortedSet = Some None \<and> zrevrank ''x'' new_SortedSet = Some None"
proof -
  have h: "mDict new_SortedSet ''x'' = None"
    by (simp add: new_SortedSet_def)
  show ?thesis
    using h absent_key_reported [OF h, of True] by simp
qed

end
